theory Spec2Isabelle
  imports Main
begin

section \<open>Run-time values\<close>

text \<open>
  The two route files handle values whose shape is only known at run time: the parsed
  reply of the processing service (\<^verbatim>\<open>await processingResponse.json()\<close>), the value
  caught by \<^verbatim>\<open>catch (error)\<close>, an entry of \<^verbatim>\<open>upload.metadata\<close> that may be
  missing, and the object handed to \<^verbatim>\<open>NextResponse.json\<close>. They are modelled by one
  datatype of JavaScript values. Numbers are integers here: the code only tests a number
  for truthiness. An object is its list of properties in insertion order; a later
  binding of a key overrides an earlier one.
\<close>

datatype js =
    Undefined
  | Null
  | Bool bool
  | Num int
  | Str string
  | Arr "js list"
  | Obj "(string \<times> js) list"

text \<open>JavaScript truthiness, as used by \<^verbatim>\<open>!x\<close>, \<^verbatim>\<open>x || y\<close> and \<^verbatim>\<open>if (x)\<close>.\<close>

fun truthy :: "js \<Rightarrow> bool" where
  "truthy Undefined = False"
| "truthy Null = False"
| "truthy (Bool b) = b"
| "truthy (Num n) = (n \<noteq> 0)"
| "truthy (Str s) = (s \<noteq> [])"
| "truthy (Arr xs) = True"
| "truthy (Obj kvs) = True"

text \<open>\<^verbatim>\<open>typeof v === "string"\<close> and \<^verbatim>\<open>typeof v === "object"\<close> (which holds of null).\<close>

fun typeof_string :: "js \<Rightarrow> bool" where
  "typeof_string (Str s) = True"
| "typeof_string v = False"

fun typeof_object :: "js \<Rightarrow> bool" where
  "typeof_object Null = True"
| "typeof_object (Arr xs) = True"
| "typeof_object (Obj kvs) = True"
| "typeof_object v = False"

text \<open>
  A thrown value is either a plain value (the code throws object literals
  \<^verbatim>\<open>{ status_code, body }\<close>) or an instance of \<^verbatim>\<open>Error\<close> with its \<^verbatim>\<open>name\<close> and
  \<^verbatim>\<open>message\<close> properties. The message of an \<^verbatim>\<open>Error\<close> is a property like any other,
  so it is a \<^typ>\<open>js\<close> value and the handler's \<^verbatim>\<open>typeof\<close> tests decide something.
\<close>

datatype thrown =
    Thrown js
  | ErrorInstance string js

text \<open>
  The \<^verbatim>\<open>TypeError\<close> of the platform for reading the property \<open>k\<close> of undefined or
  of null; \<open>what\<close> is the word \<open>undefined\<close> or \<open>null\<close>. The message puts the
  property name between single quotes.
\<close>

definition cannot_read :: "string \<Rightarrow> string \<Rightarrow> thrown" where
  "cannot_read what k =
     ErrorInstance ''TypeError''
       (Str (''Cannot read properties of '' @ what @ '' (reading ''
             @ [CHR 0x27] @ k @ [CHR 0x27] @ '')''))"

text \<open>
  Reading one of the properties \<^verbatim>\<open>success\<close>, \<^verbatim>\<open>error\<close>, \<^verbatim>\<open>body\<close>, \<^verbatim>\<open>message\<close>
  of a value: a \<^verbatim>\<open>TypeError\<close> on null and undefined, the last binding of the key
  on an object, undefined on everything else.
\<close>

fun get_prop :: "js \<Rightarrow> string \<Rightarrow> thrown + js" where
  "get_prop Undefined k = Inl (cannot_read ''undefined'' k)"
| "get_prop Null k = Inl (cannot_read ''null'' k)"
| "get_prop (Obj kvs) k = Inr (case map_of (rev kvs) k of None \<Rightarrow> Undefined | Some v \<Rightarrow> v)"
| "get_prop v k = Inr Undefined"

text \<open>
  \<^verbatim>\<open>"k" in error && typeof error.k === "string"\<close> on a caught plain value that already
  passed \<^verbatim>\<open>typeof error === "object" && error !== null\<close>: the property is present
  and a string. A missing property reads as undefined, which is not a string, so the
  \<^verbatim>\<open>in\<close> test adds nothing to the \<^verbatim>\<open>typeof\<close> test.
\<close>

definition string_prop :: "js \<Rightarrow> string \<Rightarrow> string option" where
  "string_prop v k = (case get_prop v k of Inr (Str s) \<Rightarrow> Some s | _ \<Rightarrow> None)"

text \<open>Decimal rendering of a number inside a template literal.\<close>

definition digit_char :: "nat \<Rightarrow> char" where
  "digit_char d = ''0123456789'' ! d"

fun string_of_nat :: "nat \<Rightarrow> string" where
  "string_of_nat n =
     (if n < 10 then [digit_char n]
      else string_of_nat (n div 10) @ [digit_char (n mod 10)])"

declare string_of_nat.simps [simp del]


section \<open>Uploads and the datastore\<close>

text \<open>
  \<^verbatim>\<open>Upload\<close> of the protocol library, as the hooks and the status route read it:
  \<^verbatim>\<open>id\<close>, the optional declared \<^verbatim>\<open>size\<close>, the \<^verbatim>\<open>offset\<close> and the optional
  \<^verbatim>\<open>metadata\<close>, a dictionary from strings to strings or null.
\<close>

type_synonym metadata = "string \<rightharpoonup> string option"

record upload =
  upload_id :: string
  upload_size :: "nat option"
  upload_offset :: nat
  upload_metadata :: "metadata option"

text \<open>\<^verbatim>\<open>metadata.k\<close> on a dictionary: undefined when the key is missing.\<close>

definition meta_prop :: "metadata \<Rightarrow> string \<Rightarrow> js" where
  "meta_prop m k = (case m k of None \<Rightarrow> Undefined | Some None \<Rightarrow> Null | Some (Some s) \<Rightarrow> Str s)"

text \<open>\<^verbatim>\<open>upload.metadata?.k\<close>: undefined as well when the upload has no metadata.\<close>

definition meta_opt_prop :: "metadata option \<Rightarrow> string \<Rightarrow> js" where
  "meta_opt_prop mo k = (case mo of None \<Rightarrow> Undefined | Some m \<Rightarrow> meta_prop m k)"

text \<open>
  The datastore (\<^verbatim>\<open>s3Store\<close>) belongs to a library. Its state is taken as what
  \<^verbatim>\<open>s3Store.getUpload(id)\<close> does in that state: the call raises, or it returns an
  upload, or it returns nothing (a falsy value, the case the status route tests with
  \<^verbatim>\<open>!upload\<close>).
\<close>

datatype lookup =
    LookupRaises
  | LookupResult "upload option"

type_synonym datastore = "string \<Rightarrow> lookup"

text \<open>
  The datastore both routes construct is the \<^verbatim>\<open>S3Store\<close> of the protocol library,
  which is not part of the repository. Its \<^verbatim>\<open>getUpload\<close> returns the upload created
  under the id, and raises its file-not-found error for an id under which nothing was
  created; it never returns a falsy value. \<open>s3_store uploads\<close> is that store when
  \<open>uploads\<close> are the uploads created so far.
\<close>

definition s3_store :: "(string \<rightharpoonup> upload) \<Rightarrow> datastore" where
  "s3_store uploads uploadId =
     (case uploads uploadId of
        None \<Rightarrow> LookupRaises
      | Some upload \<Rightarrow> LookupResult (Some upload))"


section \<open>The creation hook\<close>

record http_error =
  status_code :: nat
  body :: string

definition MAX_CSV_SIZE :: nat where
  "MAX_CSV_SIZE = 50 * 1024 * 1024"

text \<open>\<^verbatim>\<open>upload.size && upload.size > MAX_CSV_SIZE\<close>: false on a missing and on a zero size.\<close>

definition size_exceeds :: "nat option \<Rightarrow> nat \<Rightarrow> bool" where
  "size_exceeds sz limit = (case sz of None \<Rightarrow> False | Some n \<Rightarrow> n \<noteq> 0 \<and> n > limit)"

text \<open>
  \<^verbatim>\<open>onUploadCreate(req, upload)\<close>: a \<^verbatim>\<open>throw\<close> is \<open>Inl\<close>, the returned
  \<^verbatim>\<open>{ metadata: upload.metadata }\<close> is \<open>Inr\<close>.
\<close>

definition onUploadCreate :: "upload \<Rightarrow> http_error + metadata option" where
  "onUploadCreate upload =
     (if meta_opt_prop (upload_metadata upload) ''filetype'' \<noteq> Str ''text/csv'' then
        Inl \<lparr>status_code = 400,
             body = ''Only CSV files are allowed. Please upload a file with 'text/csv' content type.''\<rparr>
      else if size_exceeds (upload_size upload) MAX_CSV_SIZE then
        Inl \<lparr>status_code = 413,
             body = ''CSV file too large. Max size is ''
                    @ string_of_nat (MAX_CSV_SIZE div (1024 * 1024)) @ ''MB.''\<rparr>
      else Inr (upload_metadata upload))"

text \<open>
  Modelled from the spec: the create transition of the Upload Protocol Engine
  (section 4.1), which is library code outside the repository. The creation hook runs
  on the announced upload first. A rejection is the answer to the request and nothing
  is stored; otherwise the upload is stored under its id with the metadata the hook
  returned and no byte received.
\<close>

definition create_upload :: "datastore \<Rightarrow> upload \<Rightarrow> (http_error + upload) \<times> datastore" where
  "create_upload ds upload =
     (case onUploadCreate upload of
        Inl rejection \<Rightarrow> (Inl rejection, ds)
      | Inr md \<Rightarrow>
          (let created = upload\<lparr>upload_offset := 0, upload_metadata := md\<rparr>
           in (Inr created, ds(upload_id upload := LookupResult (Some created)))))"


section \<open>The completion hook\<close>

text \<open>
  The processing service is reached with \<^verbatim>\<open>fetch\<close>. The request carries the upload id
  twice. The call either rejects with an \<^verbatim>\<open>Error\<close> of the platform (the abort fired by
  the 30 second timer, a refused connection), or it yields a response with a status code
  whose body is read afterwards with \<^verbatim>\<open>text()\<close> or \<^verbatim>\<open>json()\<close>; each of the two reads
  can reject as well. An \<^verbatim>\<open>Error\<close> of the platform has a string name and a string
  message.
\<close>

record processing_request =
  s3_key :: string
  table_name :: string

record platform_error =
  error_name :: string
  error_message :: string

record response =
  status :: nat
  text_result :: "platform_error + string"
  json_result :: "platform_error + js"

datatype fetch_outcome =
    FetchRejects platform_error
  | FetchResponds response

text \<open>\<^verbatim>\<open>response.ok\<close>: the status is in the range 200 to 299.\<close>

definition ok :: "response \<Rightarrow> bool" where
  "ok r = (200 \<le> status r \<and> status r \<le> 299)"

definition rejection_of :: "platform_error \<Rightarrow> thrown" where
  "rejection_of e = ErrorInstance (error_name e) (Str (error_message e))"

text \<open>
  The body of the \<^verbatim>\<open>try\<close> block of \<^verbatim>\<open>onUploadFinish\<close>: \<open>Inl\<close> is the value that
  reaches \<^verbatim>\<open>catch\<close>, \<open>Inr\<close> is falling through to the end of the block.
\<close>

definition try_block :: "(processing_request \<Rightarrow> fetch_outcome) \<Rightarrow> upload \<Rightarrow> thrown + unit" where
  "try_block fetch upload =
     (case fetch \<lparr>s3_key = upload_id upload, table_name = upload_id upload\<rparr> of
        FetchRejects e \<Rightarrow> Inl (rejection_of e)
      | FetchResponds processingResponse \<Rightarrow>
          if \<not> ok processingResponse then
            (case text_result processingResponse of
               Inl e \<Rightarrow> Inl (rejection_of e)
             | Inr errorText \<Rightarrow>
                 Inl (Thrown (Obj [(''status_code'', Num 500),
                                   (''body'', Str (''Failed to process CSV: '' @ errorText))])))
          else
            (case json_result processingResponse of
               Inl e \<Rightarrow> Inl (rejection_of e)
             | Inr processingResult \<Rightarrow>
                 (case get_prop processingResult ''success'' of
                    Inl e \<Rightarrow> Inl e
                  | Inr success \<Rightarrow>
                      if \<not> truthy success then
                        (case get_prop processingResult ''error'' of
                           Inl e \<Rightarrow> Inl e
                         | Inr err \<Rightarrow>
                             Inl (Thrown (Obj [(''status_code'', Num 500),
                                               (''body'', if truthy err then err
                                                          else Str ''CSV processing failed'')])))
                      else Inr ())))"

text \<open>
  The classification in the \<^verbatim>\<open>catch\<close> block: the value of \<^verbatim>\<open>errorMessage\<close> when the
  block reaches \<^verbatim>\<open>console.error("Final error message:", errorMessage)\<close>, or the
  \<^verbatim>\<open>TypeError\<close> raised by \<^verbatim>\<open>error.message.includes\<close> when the message of an
  \<^verbatim>\<open>Error\<close> is neither a string nor an array: the read of \<^verbatim>\<open>includes\<close> fails on
  undefined and on null, and the call fails on any other value, which has no such
  method. An \<^verbatim>\<open>Error\<close> has no
  \<^verbatim>\<open>body\<close> property, so its first test is the one on \<^verbatim>\<open>message\<close>; a plain value
  is no instance of \<^verbatim>\<open>Error\<close>, so its last resort is the initial text.
\<close>

fun catch_block :: "thrown \<Rightarrow> thrown + js" where
  "catch_block (Thrown error) =
     (if typeof_object error \<and> error \<noteq> Null then
        (case string_prop error ''body'' of
           Some b \<Rightarrow> Inr (Str b)
         | None \<Rightarrow>
             (case string_prop error ''message'' of
                Some m \<Rightarrow> Inr (Str m)
              | None \<Rightarrow> Inr (Str ''Unknown error during CSV processing'')))
      else Inr (Str ''Unknown error during CSV processing''))"
| "catch_block (ErrorInstance name message) =
     (if typeof_string message then Inr message
      else if name = ''AbortError'' then
        Inr (Str ''CSV processing timed out. Please try again with a smaller file.'')
      else
        (case message of
           Arr xs \<Rightarrow>
             if List.member xs (Str ''fetch failed'') then
               Inr (Str ''CSV processing service is not available. Please check if the processing service is running.'')
             else Inr message
         | Undefined \<Rightarrow> Inl (cannot_read ''undefined'' ''includes'')
         | Null \<Rightarrow> Inl (cannot_read ''null'' ''includes'')
         | _ \<Rightarrow> Inl (ErrorInstance ''TypeError'' (Str ''error.message.includes is not a function''))))"

text \<open>
  \<^verbatim>\<open>onUploadFinish(req, upload)\<close> with the datastore passed through. The result is:
  what the hook raises (\<open>Inl\<close>) or its return value \<^verbatim>\<open>{}\<close> (\<open>Inr\<close>); the error message
  it wrote to the console, if any; the datastore afterwards. The hook calls no method
  of the datastore, so the datastore comes back as it went in.
\<close>

definition onUploadFinish ::
  "(processing_request \<Rightarrow> fetch_outcome) \<Rightarrow> upload \<Rightarrow> datastore
     \<Rightarrow> (thrown + unit) \<times> js option \<times> datastore" where
  "onUploadFinish fetch upload ds =
     (case try_block fetch upload of
        Inr u \<Rightarrow> (Inr (), None, ds)
      | Inl error \<Rightarrow>
          (case catch_block error of
             Inl raised \<Rightarrow> (Inl raised, None, ds)
           | Inr errorMessage \<Rightarrow> (Inr (), Some errorMessage, ds)))"

text \<open>The answer of the protocol engine to the request that carries the last chunk.\<close>

datatype transfer_response =
    TransferComplete nat
  | TransferAborted thrown

text \<open>
  Modelled from the spec: the completion transition of the Upload Protocol Engine
  (sections 4.1, 4.2 and 7), which is library code outside the repository. When the
  last chunk brings the offset to the declared length, the engine calls the completion
  hook before it answers. A failure raised by the hook aborts the answer; otherwise
  the answer reports the transfer as complete at the declared length.
\<close>

definition final_chunk ::
  "(processing_request \<Rightarrow> fetch_outcome) \<Rightarrow> upload \<Rightarrow> nat \<Rightarrow> datastore
     \<Rightarrow> transfer_response \<times> datastore" where
  "final_chunk fetch upload declaredLength ds =
     (let completed = upload\<lparr>upload_offset := declaredLength\<rparr>;
          stored = ds(upload_id upload := LookupResult (Some completed))
      in case onUploadFinish fetch completed stored of
           (Inl raised, logged, ds') \<Rightarrow> (TransferAborted raised, ds')
         | (Inr u, logged, ds') \<Rightarrow> (TransferComplete declaredLength, ds'))"


section \<open>The status route\<close>

text \<open>
  A reply built with \<^verbatim>\<open>NextResponse.json(value, { status })\<close>; the status is 200 when
  none is given. The body is the value before serialisation, so a property can be
  undefined.
\<close>

record json_response =
  http_status :: nat
  json_body :: js

text \<open>
  \<^verbatim>\<open>GET(request, { params })\<close> of the status route, with the datastore passed through.
  The only access to the datastore is the call of \<^verbatim>\<open>getUpload\<close>.
\<close>

definition GET :: "datastore \<Rightarrow> string \<Rightarrow> json_response \<times> datastore" where
  "GET ds uploadId =
     (case ds uploadId of
        LookupRaises \<Rightarrow>
          (\<lparr>http_status = 500,
            json_body = Obj [(''error'', Str ''Failed to check upload status'')]\<rparr>, ds)
      | LookupResult None \<Rightarrow>
          (\<lparr>http_status = 404, json_body = Obj [(''error'', Str ''Upload not found'')]\<rparr>, ds)
      | LookupResult (Some upload) \<Rightarrow>
          (let metadata = (case upload_metadata upload of None \<Rightarrow> Map.empty | Some m \<Rightarrow> m)
           in if truthy (meta_prop metadata ''processing_error'') then
                (\<lparr>http_status = 200,
                  json_body = Obj [(''status'', Str ''error''),
                                   (''error'', meta_prop metadata ''processing_error''),
                                   (''uploadId'', Str uploadId)]\<rparr>, ds)
              else if meta_prop metadata ''processing_status'' = Str ''success'' then
                (\<lparr>http_status = 200,
                  json_body = Obj [(''status'', Str ''success''),
                                   (''uploadId'', Str uploadId),
                                   (''completedAt'', meta_prop metadata ''processing_completed_at'')]\<rparr>, ds)
              else
                (\<lparr>http_status = 200,
                  json_body = Obj [(''status'', Str ''unknown''),
                                   (''uploadId'', Str uploadId),
                                   (''message'', Str ''Processing status unknown'')]\<rparr>, ds)))"


section \<open>Sample uploads and service behaviours\<close>

text \<open>
  A completed CSV upload in an \<^verbatim>\<open>S3Store\<close> that holds nothing else, the reply common to
  every upload without a recorded outcome, and four behaviours of the processing
  service: it reports success, it reports a failure with the message \<open>X\<close>, it does
  not answer before the abort fires, and it cannot be reached.
\<close>

definition quoted :: "string \<Rightarrow> string" where
  "quoted s = CHR 0x22 # s @ [CHR 0x22]"

definition csv_upload :: upload where
  "csv_upload = \<lparr>upload_id = ''upload-1'', upload_size = Some 10, upload_offset = 10,
     upload_metadata = Some [''filename'' \<mapsto> Some ''rows.csv'', ''filetype'' \<mapsto> Some ''text/csv'']\<rparr>"

definition csv_store :: datastore where
  "csv_store = s3_store [''upload-1'' \<mapsto> csv_upload]"

definition service_succeeds :: "processing_request \<Rightarrow> fetch_outcome" where
  "service_succeeds req = FetchResponds \<lparr>status = 200,
     text_result = Inr (''{'' @ quoted ''success'' @ '':true}''),
     json_result = Inr (Obj [(''success'', Bool True)])\<rparr>"

definition service_rejects :: "processing_request \<Rightarrow> fetch_outcome" where
  "service_rejects req = FetchResponds \<lparr>status = 200,
     text_result = Inr (''{'' @ quoted ''success'' @ '':false,'' @ quoted ''error'' @ '':'' @ quoted ''X'' @ ''}''),
     json_result = Inr (Obj [(''success'', Bool False), (''error'', Str ''X'')])\<rparr>"

definition service_times_out :: "processing_request \<Rightarrow> fetch_outcome" where
  "service_times_out req =
     FetchRejects \<lparr>error_name = ''AbortError'', error_message = ''This operation was aborted''\<rparr>"

definition service_unreachable :: "processing_request \<Rightarrow> fetch_outcome" where
  "service_unreachable req =
     FetchRejects \<lparr>error_name = ''TypeError'', error_message = ''fetch failed''\<rparr>"

definition unknown_reply :: "string \<Rightarrow> json_response" where
  "unknown_reply uploadId = \<lparr>http_status = 200,
      json_body = Obj [(''status'', Str ''unknown''), (''uploadId'', Str uploadId),
                       (''message'', Str ''Processing status unknown'')]\<rparr>"


section \<open>Facts about the hooks\<close>

text \<open>The size named in the body of the 413 rejection.\<close>

lemma max_size_in_MB: "string_of_nat (MAX_CSV_SIZE div (1024 * 1024)) = ''50''"
  by (simp add: MAX_CSV_SIZE_def string_of_nat.simps [of 50] string_of_nat.simps [of 5]
      digit_char_def)

text \<open>
  Property reads only raise \<^verbatim>\<open>Error\<close>s with a string message, and the \<^verbatim>\<open>catch\<close>
  block turns an \<^verbatim>\<open>Error\<close> of the platform into its own message: the two friendly
  texts for a timeout and for an unavailable service are not produced for such errors.
\<close>

lemma get_prop_raises: "get_prop v k = Inl e \<Longrightarrow> \<exists>n m. e = ErrorInstance n (Str m)"
  by (cases v) (auto simp add: cannot_read_def)

lemma catch_block_rejection: "catch_block (rejection_of e) = Inr (Str (error_message e))"
  by (simp add: rejection_of_def)

lemma catch_block_literal:
  "catch_block (Thrown (Obj [(''status_code'', Num c), (''body'', b)])) =
     Inr (Str (case b of Str s \<Rightarrow> s | _ \<Rightarrow> ''Unknown error during CSV processing''))"
  by (cases b) (simp_all add: string_prop_def)

lemma try_block_caught:
  assumes "try_block fetch upload = Inl e"
  shows "\<exists>m. catch_block e = Inr m"
proof -
  from assms consider
      (platform) p where "e = rejection_of p"
    | (literal) c b where "e = Thrown (Obj [(''status_code'', Num c), (''body'', b)])"
    | (type_error) n m where "e = ErrorInstance n (Str m)"
    by (auto simp add: try_block_def split: fetch_outcome.splits sum.splits if_splits
        dest: get_prop_raises)
  then show ?thesis
  proof cases
    case platform
    then show ?thesis by (simp add: catch_block_rejection)
  next
    case literal
    show ?thesis unfolding literal catch_block_literal by blast
  next
    case type_error
    then show ?thesis by simp
  qed
qed

text \<open>The completion hook hands the datastore back unchanged, whatever the service does.\<close>

lemma onUploadFinish_datastore: "snd (snd (onUploadFinish fetch upload ds)) = ds"
  by (simp add: onUploadFinish_def split: sum.splits)

text \<open>So the completion hook never changes what the status route answers.\<close>

lemma status_unchanged_by_finish:
  "GET (snd (snd (onUploadFinish fetch upload ds))) uploadId = GET ds uploadId"
  by (simp add: onUploadFinish_datastore)

lemma onUploadFinish_returns: "fst (onUploadFinish fetch upload ds) = Inr ()"
proof (cases "try_block fetch upload")
  case (Inl e)
  then obtain m where "catch_block e = Inr m" using try_block_caught by blast
  with Inl show ?thesis by (simp add: onUploadFinish_def)
next
  case (Inr u)
  then show ?thesis by (simp add: onUploadFinish_def)
qed

text \<open>
  The status route answers 404 exactly when the lookup returns a falsy value. The
  \<^verbatim>\<open>S3Store\<close> raises for a missing id instead, which the route answers with 500.
\<close>

lemma GET_not_found_iff:
  "http_status (fst (GET ds uploadId)) = 404 \<longleftrightarrow> ds uploadId = LookupResult None"
  by (simp add: GET_def Let_def split: lookup.splits option.splits)

lemma GET_missing_in_s3_store:
  "uploads uploadId = None \<Longrightarrow>
     fst (GET (s3_store uploads) uploadId) =
       \<lparr>http_status = 500, json_body = Obj [(''error'', Str ''Failed to check upload status'')]\<rparr>"
  by (simp add: GET_def s3_store_def)

lemma s3_store_never_falsy: "s3_store uploads uploadId \<noteq> LookupResult None"
  by (simp add: s3_store_def split: option.splits)


section \<open>The claims\<close>

text \<open>
  C1, as the code behaves on the input the claim is about. The processing service
  answers \<^verbatim>\<open>{success:true}\<close> with status 200. The completion hook returns \<^verbatim>\<open>{}\<close>
  and leaves the datastore as it was: neither \<^verbatim>\<open>processing_status\<close> nor
  \<^verbatim>\<open>processing_completed_at\<close> is written. The status route afterwards answers
  \<^verbatim>\<open>unknown\<close> for the upload, not \<^verbatim>\<open>success\<close>.
\<close>

theorem success_not_recorded:
  "onUploadFinish service_succeeds csv_upload csv_store = (Inr (), None, csv_store)
   \<and> fst (GET (snd (snd (onUploadFinish service_succeeds csv_upload csv_store))) ''upload-1'')
       = unknown_reply ''upload-1''"
proof -
  have a: "onUploadFinish service_succeeds csv_upload csv_store = (Inr (), None, csv_store)"
    by (simp add: onUploadFinish_def try_block_def service_succeeds_def ok_def)
  have "fst (GET csv_store ''upload-1'') = unknown_reply ''upload-1''"
    by (simp add: GET_def csv_store_def s3_store_def csv_upload_def meta_prop_def unknown_reply_def)
  with a show ?thesis by simp
qed

text \<open>
  C2, as the code behaves on the input the claim is about. The processing service
  answers \<^verbatim>\<open>{success:false, error:"X"}\<close>. The completion hook computes the message
  \<open>X\<close>, writes it to the console only, returns \<^verbatim>\<open>{}\<close> and leaves the datastore as
  it was: \<^verbatim>\<open>processing_error\<close> is not written. The status route afterwards answers
  \<^verbatim>\<open>unknown\<close> for the upload, not \<^verbatim>\<open>error\<close> with the message \<open>X\<close>.
\<close>

theorem failure_not_recorded:
  "onUploadFinish service_rejects csv_upload csv_store = (Inr (), Some (Str ''X''), csv_store)
   \<and> fst (GET (snd (snd (onUploadFinish service_rejects csv_upload csv_store))) ''upload-1'')
       = unknown_reply ''upload-1''"
proof -
  have a: "onUploadFinish service_rejects csv_upload csv_store = (Inr (), Some (Str ''X''), csv_store)"
    by (simp add: onUploadFinish_def try_block_def service_rejects_def ok_def string_prop_def)
  have "fst (GET csv_store ''upload-1'') = unknown_reply ''upload-1''"
    by (simp add: GET_def csv_store_def s3_store_def csv_upload_def meta_prop_def unknown_reply_def)
  with a show ?thesis by simp
qed

text \<open>
  C3, as the code behaves on the inputs the claim is about. The call of the processing
  service is aborted by the timer, or the connection fails. The completion hook takes
  the message of the platform's error, writes it to the console only, returns
  \<^verbatim>\<open>{}\<close> and leaves the datastore as it was. The status route afterwards answers
  \<^verbatim>\<open>unknown\<close> for the upload, not \<^verbatim>\<open>error\<close>.
\<close>

theorem timeout_not_recorded:
  "onUploadFinish service_times_out csv_upload csv_store
     = (Inr (), Some (Str ''This operation was aborted''), csv_store)
   \<and> fst (GET (snd (snd (onUploadFinish service_times_out csv_upload csv_store))) ''upload-1'')
       = unknown_reply ''upload-1''
   \<and> onUploadFinish service_unreachable csv_upload csv_store
     = (Inr (), Some (Str ''fetch failed''), csv_store)
   \<and> fst (GET (snd (snd (onUploadFinish service_unreachable csv_upload csv_store))) ''upload-1'')
       = unknown_reply ''upload-1''"
proof -
  have a: "onUploadFinish service_times_out csv_upload csv_store
     = (Inr (), Some (Str ''This operation was aborted''), csv_store)"
    by (simp add: onUploadFinish_def try_block_def service_times_out_def rejection_of_def)
  have b: "onUploadFinish service_unreachable csv_upload csv_store
     = (Inr (), Some (Str ''fetch failed''), csv_store)"
    by (simp add: onUploadFinish_def try_block_def service_unreachable_def rejection_of_def)
  have "fst (GET csv_store ''upload-1'') = unknown_reply ''upload-1''"
    by (simp add: GET_def csv_store_def s3_store_def csv_upload_def meta_prop_def unknown_reply_def)
  with a b show ?thesis by simp
qed

text \<open>
  C4: whatever the processing service does (an explicit failure, a status outside 200
  to 299, a timeout, a failed connection, an unreadable or malformed body), the
  completion hook raises nothing and returns \<^verbatim>\<open>{}\<close>, so the answer of the protocol
  engine to the final chunk reports the transfer as complete.
\<close>

theorem finish_never_raises:
  "fst (onUploadFinish fetch upload ds) = Inr ()
   \<and> fst (final_chunk fetch upload declaredLength ds) = TransferComplete declaredLength"
proof -
  define completed where "completed = upload\<lparr>upload_offset := declaredLength\<rparr>"
  define stored where "stored = ds(upload_id upload := LookupResult (Some completed))"
  obtain r logged ds' where run: "onUploadFinish fetch completed stored = (r, logged, ds')"
    by (cases "onUploadFinish fetch completed stored") auto
  with onUploadFinish_returns [of fetch completed stored] have "r = Inr ()" by simp
  with run have "fst (final_chunk fetch upload declaredLength ds) = TransferComplete declaredLength"
    by (simp add: final_chunk_def completed_def stored_def)
  then show ?thesis by (simp add: onUploadFinish_returns)
qed

text \<open>
  C5, as the code behaves on the input the claim is about. Nothing was ever created
  under the id \<open>never-created\<close>, so \<^verbatim>\<open>getUpload\<close> of the \<^verbatim>\<open>S3Store\<close> raises. The
  status route catches that and answers 500 with the error
  \<open>Failed to check upload status\<close>, not 404: its test \<^verbatim>\<open>!upload\<close> for the
  not-found answer is never reached with this store.
\<close>

theorem never_created_not_404:
  "csv_store ''never-created'' = LookupRaises
   \<and> fst (GET csv_store ''never-created'') =
       \<lparr>http_status = 500, json_body = Obj [(''error'', Str ''Failed to check upload status'')]\<rparr>
   \<and> http_status (fst (GET csv_store ''never-created'')) \<noteq> 404"
proof -
  have a: "csv_store ''never-created'' = LookupRaises"
    by (simp add: csv_store_def s3_store_def)
  then have b: "fst (GET csv_store ''never-created'') =
       \<lparr>http_status = 500, json_body = Obj [(''error'', Str ''Failed to check upload status'')]\<rparr>"
    by (simp add: GET_def)
  from a b show ?thesis by simp
qed

text \<open>
  C6: a create request whose metadata has no \<^verbatim>\<open>filetype\<close> equal to \<^verbatim>\<open>text/csv\<close>
  is rejected by the creation hook with status 400 and a readable reason, whatever its
  size; the engine stores nothing for it, so no byte is accepted.
\<close>

theorem wrong_filetype_rejected:
  assumes "meta_opt_prop (upload_metadata upload) ''filetype'' \<noteq> Str ''text/csv''"
  shows "onUploadCreate upload =
           Inl \<lparr>status_code = 400,
                body = ''Only CSV files are allowed. Please upload a file with 'text/csv' content type.''\<rparr>
         \<and> snd (create_upload ds upload) = ds
         \<and> fst (create_upload ds upload) = Inl \<lparr>status_code = 400,
                body = ''Only CSV files are allowed. Please upload a file with 'text/csv' content type.''\<rparr>"
  using assms by (simp add: onUploadCreate_def create_upload_def)

theorem wrong_filetype_rejected_witness:
  "onUploadCreate \<lparr>upload_id = ''u1'', upload_size = Some 1000, upload_offset = 0,
       upload_metadata = Some [''filename'' \<mapsto> Some ''rows.json'', ''filetype'' \<mapsto> Some ''application/json'']\<rparr> =
           Inl \<lparr>status_code = 400,
                body = ''Only CSV files are allowed. Please upload a file with 'text/csv' content type.''\<rparr>"
  using wrong_filetype_rejected [of "\<lparr>upload_id = ''u1'', upload_size = Some 1000, upload_offset = 0,
       upload_metadata = Some [''filename'' \<mapsto> Some ''rows.json'', ''filetype'' \<mapsto> Some ''application/json'']\<rparr>"]
  by (simp add: meta_opt_prop_def meta_prop_def)

text \<open>
  C7, amended: a create request whose \<^verbatim>\<open>filetype\<close> is \<^verbatim>\<open>text/csv\<close> and whose
  declared size exceeds 50 MiB is rejected with status 413 and the body
  \<open>CSV file too large. Max size is 50MB.\<close>, and nothing is stored for it.
\<close>

theorem oversized_csv_rejected:
  assumes "meta_opt_prop (upload_metadata upload) ''filetype'' = Str ''text/csv''"
    and "upload_size upload = Some n" and "n > MAX_CSV_SIZE"
  shows "onUploadCreate upload =
           Inl \<lparr>status_code = 413, body = ''CSV file too large. Max size is 50MB.''\<rparr>
         \<and> create_upload ds upload =
           (Inl \<lparr>status_code = 413, body = ''CSV file too large. Max size is 50MB.''\<rparr>, ds)"
proof -
  from assms(2,3) have "size_exceeds (upload_size upload) MAX_CSV_SIZE"
    by (simp add: size_exceeds_def)
  with assms(1) max_size_in_MB have "onUploadCreate upload =
      Inl \<lparr>status_code = 413, body = ''CSV file too large. Max size is 50MB.''\<rparr>"
    by (simp add: onUploadCreate_def)
  then show ?thesis by (simp add: create_upload_def)
qed

theorem oversized_csv_rejected_witness:
  "onUploadCreate \<lparr>upload_id = ''u1'', upload_size = Some (60 * 1024 * 1024), upload_offset = 0,
       upload_metadata = Some [''filename'' \<mapsto> Some ''rows.csv'', ''filetype'' \<mapsto> Some ''text/csv'']\<rparr>
     = Inl \<lparr>status_code = 413, body = ''CSV file too large. Max size is 50MB.''\<rparr>"
  using oversized_csv_rejected [of "\<lparr>upload_id = ''u1'', upload_size = Some (60 * 1024 * 1024), upload_offset = 0,
       upload_metadata = Some [''filename'' \<mapsto> Some ''rows.csv'', ''filetype'' \<mapsto> Some ''text/csv'']\<rparr>"
       "60 * 1024 * 1024"]
  by (simp add: meta_opt_prop_def meta_prop_def MAX_CSV_SIZE_def)

text \<open>
  C7 as stated fails: the type check comes first, so a request of 60 MiB whose
  \<^verbatim>\<open>filetype\<close> is \<^verbatim>\<open>application/json\<close> is rejected with status 400 and the body
  about CSV files, not with 413.
\<close>

theorem oversized_rejected_counterexample:
  "size_exceeds (Some (60 * 1024 * 1024)) MAX_CSV_SIZE
   \<and> onUploadCreate \<lparr>upload_id = ''u1'', upload_size = Some (60 * 1024 * 1024), upload_offset = 0,
       upload_metadata = Some [''filename'' \<mapsto> Some ''rows.json'', ''filetype'' \<mapsto> Some ''application/json'']\<rparr>
     = Inl \<lparr>status_code = 400,
                body = ''Only CSV files are allowed. Please upload a file with 'text/csv' content type.''\<rparr>"
  by (simp add: onUploadCreate_def meta_opt_prop_def meta_prop_def size_exceeds_def MAX_CSV_SIZE_def)

text \<open>
  C8: the status route does not change the datastore, and asking again in the state it
  leaves behind gives the same answer.
\<close>

theorem status_is_projection:
  "snd (GET ds uploadId) = ds \<and> GET (snd (GET ds uploadId)) uploadId = GET ds uploadId"
proof -
  have "snd (GET ds uploadId) = ds"
    by (simp add: GET_def Let_def split: lookup.splits option.splits)
  then show ?thesis by simp
qed

text \<open>
  C9: for an existing upload whose metadata holds a non-empty \<^verbatim>\<open>processing_error\<close>
  and \<^verbatim>\<open>processing_status = success\<close>, the status route answers \<^verbatim>\<open>error\<close> with
  the recorded message.
\<close>

theorem error_takes_precedence:
  assumes "ds uploadId = LookupResult (Some upload)"
    and "upload_metadata upload = Some m"
    and "m ''processing_error'' = Some (Some e)" and "e \<noteq> []"
    and "m ''processing_status'' = Some (Some ''success'')"
  shows "fst (GET ds uploadId) =
           \<lparr>http_status = 200,
            json_body = Obj [(''status'', Str ''error''), (''error'', Str e),
                             (''uploadId'', Str uploadId)]\<rparr>"
  using assms by (simp add: GET_def meta_prop_def)

theorem error_takes_precedence_witness:
  "fst (GET ((\<lambda>i. LookupResult None)(''u7'' := LookupResult (Some
       \<lparr>upload_id = ''u7'', upload_size = Some 10, upload_offset = 10,
        upload_metadata = Some [''processing_error'' \<mapsto> Some ''bad header'',
                                ''processing_status'' \<mapsto> Some ''success'']\<rparr>))) ''u7'') =
     \<lparr>http_status = 200,
      json_body = Obj [(''status'', Str ''error''), (''error'', Str ''bad header''),
                       (''uploadId'', Str ''u7'')]\<rparr>"
  using error_takes_precedence [of "(\<lambda>i. LookupResult None)(''u7'' := LookupResult (Some
       \<lparr>upload_id = ''u7'', upload_size = Some 10, upload_offset = 10,
        upload_metadata = Some [''processing_error'' \<mapsto> Some ''bad header'',
                                ''processing_status'' \<mapsto> Some ''success'']\<rparr>))" "''u7''"
       "\<lparr>upload_id = ''u7'', upload_size = Some 10, upload_offset = 10,
        upload_metadata = Some [''processing_error'' \<mapsto> Some ''bad header'',
                                ''processing_status'' \<mapsto> Some ''success'']\<rparr>"
       "[''processing_error'' \<mapsto> Some ''bad header'', ''processing_status'' \<mapsto> Some ''success'']"
       "''bad header''"]
  by simp

text \<open>
  C10: a create request whose \<^verbatim>\<open>filetype\<close> is \<^verbatim>\<open>text/csv\<close> and whose size is
  missing or zero is accepted: the hook returns the metadata of the request, and the engine stores the
  upload with no byte received.
\<close>

theorem size_check_skipped:
  assumes "meta_opt_prop (upload_metadata upload) ''filetype'' = Str ''text/csv''"
    and "upload_size upload = None \<or> upload_size upload = Some 0"
  shows "onUploadCreate upload = Inr (upload_metadata upload)
         \<and> fst (create_upload ds upload) = Inr (upload\<lparr>upload_offset := 0\<rparr>)"
proof -
  from assms have "onUploadCreate upload = Inr (upload_metadata upload)"
    by (auto simp add: onUploadCreate_def size_exceeds_def)
  then show ?thesis by (simp add: create_upload_def Let_def)
qed

theorem size_check_skipped_witness:
  "onUploadCreate \<lparr>upload_id = ''u1'', upload_size = None, upload_offset = 0,
       upload_metadata = Some [''filetype'' \<mapsto> Some ''text/csv'']\<rparr>
     = Inr (Some [''filetype'' \<mapsto> Some ''text/csv''])
   \<and> onUploadCreate \<lparr>upload_id = ''u2'', upload_size = Some 0, upload_offset = 0,
       upload_metadata = Some [''filetype'' \<mapsto> Some ''text/csv'']\<rparr>
     = Inr (Some [''filetype'' \<mapsto> Some ''text/csv''])"
  using size_check_skipped [of "\<lparr>upload_id = ''u1'', upload_size = None, upload_offset = 0,
       upload_metadata = Some [''filetype'' \<mapsto> Some ''text/csv'']\<rparr>"]
    size_check_skipped [of "\<lparr>upload_id = ''u2'', upload_size = Some 0, upload_offset = 0,
       upload_metadata = Some [''filetype'' \<mapsto> Some ''text/csv'']\<rparr>"]
  by (simp add: meta_opt_prop_def meta_prop_def)

end
